theory Spec2Isabelle
  imports Complex_Main "HOL-Library.Option_ord" "HOL-Library.Sublist" "HOL-Library.Multiset"
begin

section \<open>JSON values and JavaScript coercions\<close>

text \<open>
  Request bodies are parsed by \<^verbatim>\<open>express.json()\<close>. A parsed body is an object: a finite
  map from keys to JSON values, where a missing key reads as \<^verbatim>\<open>undefined\<close> (\<open>None\<close>).
  Numbers are restricted to the integers of magnitude below ten to the power 21, which
  print in decimal. \<open>JDate\<close> stands for a \<^verbatim>\<open>Date\<close> in a response (rendered by \<^verbatim>\<open>res.json\<close> as an
  ISO-8601 string); it does not occur in request bodies.

  A JavaScript string is the list of its Unicode code points. \<open>js\<close> turns a literal of
  ASCII characters into such a string. Keys of objects and the fixed messages of the server
  stay plain literals.
\<close>

type_synonym jstring = "nat list"

definition cp :: "char \<Rightarrow> nat" where
  "cp c = of_char c"

definition js :: "string \<Rightarrow> jstring" where
  "js s = map cp s"

datatype json =
    JNull
  | JBool bool
  | JNum int
  | JStr jstring
  | JDate int
  | JArr "json list"
  | JObj "(string \<times> json) list"

type_synonym body = "string \<rightharpoonup> json"

definition digit :: "nat \<Rightarrow> nat" where
  "digit d = js ''0123456789'' ! d"

fun decimal :: "nat \<Rightarrow> jstring" where
  "decimal n = (if n < 10 then [digit n] else decimal (n div 10) @ [digit (n mod 10)])"

declare decimal.simps [simp del]

definition Number_toString :: "int \<Rightarrow> jstring" where
  "Number_toString n = (if n < 0 then js ''-'' @ decimal (nat (- n)) else decimal (nat n))"

fun join :: "jstring \<Rightarrow> jstring list \<Rightarrow> jstring" where
  "join sep [] = []"
| "join sep [x] = x"
| "join sep (x # y # ys) = x @ sep @ join sep (y # ys)"

text \<open>\<^verbatim>\<open>String(v)\<close>: an array joins its elements with commas, \<^verbatim>\<open>null\<close> elements as the empty
  string; a plain object prints as \<^verbatim>\<open>[object Object]\<close>.\<close>

fun String_js :: "json \<Rightarrow> jstring" where
  "String_js JNull = js ''null''"
| "String_js (JBool b) = (if b then js ''true'' else js ''false'')"
| "String_js (JNum n) = Number_toString n"
| "String_js (JStr s) = s"
| "String_js (JDate t) = Number_toString t"
| "String_js (JArr xs) = join (js '','') (map (\<lambda>x. if x = JNull then [] else String_js x) xs)"
| "String_js (JObj kvs) = js ''[object Object]''"



text \<open>The white space and the line terminators of ECMAScript: tab, line feed, vertical
  tab, form feed, carriage return, space, no-break space, the space separators U+1680,
  U+2000 to U+200A, U+202F, U+205F and U+3000, the line and paragraph separators U+2028 and
  U+2029, and the byte order mark U+FEFF.\<close>

definition isWhiteSpace :: "nat \<Rightarrow> bool" where
  "isWhiteSpace c =
    (c \<in> set [0x09, 0x0A, 0x0B, 0x0C, 0x0D, 0x20, 0xA0, 0x1680, 0x2028, 0x2029, 0x202F, 0x205F,
               0x3000, 0xFEFF]
     \<or> (0x2000 \<le> c \<and> c \<le> 0x200A))"

text \<open>\<^verbatim>\<open>String.prototype.trim\<close>: white space and line terminators are removed from both
  ends.\<close>

definition trim :: "jstring \<Rightarrow> jstring" where
  "trim s = rev (dropWhile isWhiteSpace (rev (dropWhile isWhiteSpace s)))"

section \<open>The Summary collection\<close>

text \<open>
  \<^verbatim>\<open>summarySchema\<close> declares six paths; every document also has its \<^verbatim>\<open>_id\<close>. There is no
  owner path. A tag is a string or \<^verbatim>\<open>null\<close>; \<open>slug\<close> is \<open>None\<close> while absent; \<open>createdAt\<close>
  is a time in milliseconds, or \<open>None\<close> for \<^verbatim>\<open>null\<close>. The collection is the list of its
  documents in insertion order.
\<close>

record summary_doc =
  doc_id :: nat
  "note" :: jstring
  summary :: jstring
  tags :: "jstring option list"
  starred :: bool
  slug :: "jstring option"
  createdAt :: "int option"

type_synonym collection = "summary_doc list"

definition schema_paths :: "string list" where
  "schema_paths = [''note'', ''summary'', ''tags'', ''starred'', ''slug'', ''createdAt'']"

text \<open>Mongoose's strict mode: keys that are no path of the schema are dropped.\<close>

definition strict :: "body \<Rightarrow> body" where
  "strict obj = (\<lambda>k. if k \<in> set schema_paths then obj k else None)"

datatype error =
    CastError
  | ValidationError
  | DuplicateKey
  | SyntaxError
  | TypeError
  | JsonWebTokenError
  | TokenExpiredError

text \<open>A route parameter \<^verbatim>\<open>:id\<close> either denotes an ObjectId or fails to cast.\<close>

datatype id_param = BadId | Id nat

subsection \<open>Casting to the schema types\<close>

text \<open>String paths: a string is kept, a number or boolean is printed, \<^verbatim>\<open>null\<close> stays
  \<^verbatim>\<open>null\<close>, an object with a string \<^verbatim>\<open>_id\<close> gives that string, anything else fails.\<close>

fun castString :: "json \<Rightarrow> error + jstring option" where
  "castString JNull = Inr None"
| "castString (JStr s) = Inr (Some s)"
| "castString (JNum n) = Inr (Some (Number_toString n))"
| "castString (JBool b) = Inr (Some (if b then js ''true'' else js ''false''))"
| "castString (JObj kvs) = (case map_of kvs ''_id'' of Some (JStr s) \<Rightarrow> Inr (Some s) | _ \<Rightarrow> Inl CastError)"
| "castString v = Inl CastError"

definition castBoolean :: "json \<Rightarrow> error + bool" where
  "castBoolean v =
    (if v \<in> set [JBool True, JStr (js ''true''), JNum 1, JStr (js ''1''), JStr (js ''yes'')] then Inr True
     else if v \<in> set [JBool False, JStr (js ''false''), JNum 0, JStr (js ''0''), JStr (js ''no'')]
       then Inr False
     else Inl CastError)"

text \<open>Date paths: a number is a time if it is within the range of \<^verbatim>\<open>Date\<close>,
  8640000000000000 milliseconds either side of the epoch, and fails to cast otherwise;
  \<^verbatim>\<open>null\<close> stays \<^verbatim>\<open>null\<close>. What the cast makes of any other value (date parsing) is the
  parameter \<open>D\<close>.\<close>

type_synonym date_cast = "json \<Rightarrow> error + int option"

fun castDate :: "date_cast \<Rightarrow> json \<Rightarrow> error + int option" where
  "castDate D (JNum n) = (if \<bar>n\<bar> \<le> 8640000000000000 then Inr (Some n) else Inl CastError)"
| "castDate D JNull = Inr None"
| "castDate D v = D v"

text \<open>\<^verbatim>\<open>tags: [{ type: String, trim: true }]\<close>: every element is cast to a string and
  trimmed; a value that is no array is cast as a one-element array.\<close>

definition castTag :: "json \<Rightarrow> error + jstring option" where
  "castTag v = (case castString v of Inl e \<Rightarrow> Inl e | Inr t \<Rightarrow> Inr (map_option trim t))"

fun castAll :: "('a \<Rightarrow> error + 'b) \<Rightarrow> 'a list \<Rightarrow> error + 'b list" where
  "castAll f [] = Inr []"
| "castAll f (x # xs) =
    (case f x of Inl e \<Rightarrow> Inl e
     | Inr y \<Rightarrow> (case castAll f xs of Inl e \<Rightarrow> Inl e | Inr ys \<Rightarrow> Inr (y # ys)))"

fun castTags :: "json \<Rightarrow> error + jstring option list" where
  "castTags (JArr xs) = castAll castTag xs"
| "castTags v = castAll castTag [v]"


section \<open>Identities and tokens\<close>

text \<open>\<^verbatim>\<open>req.user\<close>, as the authentication middleware attaches it.\<close>

record identity =
  user_id :: jstring
  email :: jstring

text \<open>
  The payload of a token: the claims \<open>id\<close> and \<open>email\<close> and the times (in seconds) of issue
  and expiry. A token is what its encoded parts decode to, the claims and the signature;
  \<open>Garbage\<close> is any string that is no such encoding.
\<close>

record claims =
  claim_id :: jstring
  claim_email :: jstring
  iat :: int
  exp :: int

datatype token = Garbage jstring | JWT claims jstring

section \<open>Responses\<close>

text \<open>
  A response is a status code and what \<^verbatim>\<open>res.json\<close> was given: a document, a list of
  documents, a page \<^verbatim>\<open>{items, page, pages, total}\<close>, an object literal with its keys in
  order, \<^verbatim>\<open>{token, user}\<close>, \<^verbatim>\<open>{message}\<close> with a fixed text, \<^verbatim>\<open>{message: error.message}\<close> for a caught
  error, or \<^verbatim>\<open>{errors}\<close> naming the fields that failed validation.
\<close>

datatype payload =
    Doc summary_doc
  | Docs "summary_doc list"
  | Page "summary_doc list" int int int
  | Object "(string \<times> json) list"
  | Auth token identity
  | Message string
  | Thrown error
  | Errors "string list"

datatype response = Response nat payload

section \<open>Request validation\<close>

text \<open>A standard validator checks the field as a string (\<^verbatim>\<open>undefined\<close> and \<^verbatim>\<open>null\<close> as
  the empty string), and an array element by element.\<close>

definition toString :: "json \<Rightarrow> jstring" where
  "toString v = (case v of JNull \<Rightarrow> [] | _ \<Rightarrow> String_js v)"

fun standard :: "(jstring \<Rightarrow> bool) \<Rightarrow> json option \<Rightarrow> bool" where
  "standard chk None = chk []"
| "standard chk (Some (JArr xs)) = list_all (\<lambda>x. chk (toString x)) xs"
| "standard chk (Some v) = chk (toString v)"

text \<open>\<^verbatim>\<open>isLength\<close> counts the characters of the string, a surrogate pair as one. The
  variation selectors U+FE0E and U+FE0F are not counted (validator.js from its version
  13.9 on; a string that is long enough without them is long enough in every version).\<close>

definition validator_length :: "jstring \<Rightarrow> nat" where
  "validator_length s = length (filter (\<lambda>c. c \<noteq> 0xFE0E \<and> c \<noteq> 0xFE0F) s)"

definition isLength :: "nat \<Rightarrow> nat \<Rightarrow> json option \<Rightarrow> bool" where
  "isLength lo hi = standard (\<lambda>s. lo \<le> validator_length s \<and> validator_length s \<le> hi)"

definition isBoolean :: "json option \<Rightarrow> bool" where
  "isBoolean = standard (\<lambda>s. s \<in> set [js ''true'', js ''false'', js ''1'', js ''0''])"

fun isString :: "json option \<Rightarrow> bool" where
  "isString (Some (JStr s)) = True"
| "isString v = False"

fun isArray :: "nat \<Rightarrow> json option \<Rightarrow> bool" where
  "isArray hi (Some (JArr xs)) = (length xs \<le> hi)"
| "isArray hi v = False"

text \<open>\<^verbatim>\<open>optional()\<close>: an \<^verbatim>\<open>undefined\<close> field is not checked.\<close>

definition optional :: "(json option \<Rightarrow> bool) \<Rightarrow> json option \<Rightarrow> bool" where
  "optional chk x = (case x of None \<Rightarrow> True | Some v \<Rightarrow> chk x)"

text \<open>The fields with a failing validation chain, in the order of the chains.\<close>

definition failing :: "(string \<times> bool) list \<Rightarrow> string list" where
  "failing checks = map fst (filter (\<lambda>c. \<not> snd c) checks)"

definition validate_post :: "body \<Rightarrow> string list" where
  "validate_post b = failing
     [(''note'', isString (b ''note'') \<and> isLength 1 20000 (b ''note'')),
      (''summary'', isString (b ''summary'') \<and> isLength 1 8000 (b ''summary'')),
      (''tags'', optional (isArray 10) (b ''tags''))]"

definition validate_put :: "body \<Rightarrow> string list" where
  "validate_put b = failing
     [(''note'', optional (\<lambda>v. isString v \<and> isLength 1 20000 v) (b ''note'')),
      (''summary'', optional (\<lambda>v. isString v \<and> isLength 1 8000 v) (b ''summary'')),
      (''tags'', optional (isArray 10) (b ''tags'')),
      (''starred'', optional isBoolean (b ''starred''))]"

section \<open>Store operations\<close>

text \<open>Setting one schema path from a JSON value. \<^verbatim>\<open>null\<close> for \<open>note\<close>, \<open>summary\<close> or
  \<open>starred\<close> is refused here; the validators in front of every caller exclude it.\<close>

definition set_path :: "date_cast \<Rightarrow> string \<Rightarrow> json \<Rightarrow> error + (summary_doc \<Rightarrow> summary_doc)" where
  "set_path D p v =
    (if p = ''note'' then
       (case castString v of Inr (Some s) \<Rightarrow> Inr (\<lambda>d. d\<lparr>note := s\<rparr>) | _ \<Rightarrow> Inl CastError)
     else if p = ''summary'' then
       (case castString v of Inr (Some s) \<Rightarrow> Inr (\<lambda>d. d\<lparr>summary := s\<rparr>) | _ \<Rightarrow> Inl CastError)
     else if p = ''tags'' then
       (case castTags v of Inr ts \<Rightarrow> Inr (\<lambda>d. d\<lparr>tags := ts\<rparr>) | Inl e \<Rightarrow> Inl e)
     else if p = ''starred'' then
       (case castBoolean v of Inr b \<Rightarrow> Inr (\<lambda>d. d\<lparr>starred := b\<rparr>) | Inl e \<Rightarrow> Inl e)
     else if p = ''slug'' then
       (case castString v of Inr s \<Rightarrow> Inr (\<lambda>d. d\<lparr>slug := s\<rparr>) | Inl e \<Rightarrow> Inl e)
     else if p = ''createdAt'' then
       (case castDate D v of Inr t \<Rightarrow> Inr (\<lambda>d. d\<lparr>createdAt := t\<rparr>) | Inl e \<Rightarrow> Inl e)
     else Inr (\<lambda>d. d))"

text \<open>Casting an object against the schema: the keys that are schema paths are cast, in
  schema order; no other key is looked at (strict mode).\<close>

fun castPaths :: "date_cast \<Rightarrow> body \<Rightarrow> string list \<Rightarrow> error + (summary_doc \<Rightarrow> summary_doc)" where
  "castPaths D obj [] = Inr (\<lambda>d. d)"
| "castPaths D obj (p # ps) =
    (case obj p of
       None \<Rightarrow> castPaths D obj ps
     | Some v \<Rightarrow>
        (case set_path D p v of
           Inl e \<Rightarrow> Inl e
         | Inr f \<Rightarrow> (case castPaths D obj ps of Inl e \<Rightarrow> Inl e | Inr g \<Rightarrow> Inr (g \<circ> f))))"

definition castObject :: "date_cast \<Rightarrow> body \<Rightarrow> error + (summary_doc \<Rightarrow> summary_doc)" where
  "castObject D obj = castPaths D (strict obj) schema_paths"

text \<open>An update document: its top-level keys are sugar for the operator \<^verbatim>\<open>$set\<close>, so
  \<^verbatim>\<open>{note: x}\<close> is \<^verbatim>\<open>{$set: {note: x}}\<close>. Mongoose moves them into the object given for
  \<^verbatim>\<open>$set\<close>, where a top-level key replaces the same key of that object, and casts the paths
  of the result against the schema. In an object that was parsed from JSON the last of
  several equal keys counts. Of the update operators only \<^verbatim>\<open>$set\<close> with an object for its
  operand is modelled; paths with a dot are not.\<close>

definition set_operator :: "body \<Rightarrow> body" where
  "set_operator obj = (case obj ''$set'' of Some (JObj kvs) \<Rightarrow> map_of (rev kvs) ++ obj | _ \<Rightarrow> obj)"

definition castUpdate :: "date_cast \<Rightarrow> body \<Rightarrow> error + (summary_doc \<Rightarrow> summary_doc)" where
  "castUpdate D obj = castObject D (set_operator obj)"

text \<open>The unique sparse index on \<open>slug\<close>: a slug that another document carries is taken.
  A write is checked against it whether or not it changes the slug; in a collection whose
  slugs are unique the unchanged slug of a document is never taken.\<close>

definition slug_taken :: "collection \<Rightarrow> nat \<Rightarrow> jstring option \<Rightarrow> bool" where
  "slug_taken db i s = (case s of None \<Rightarrow> False
     | Some x \<Rightarrow> list_ex (\<lambda>d. doc_id d \<noteq> i \<and> slug d = Some x) db)"

text \<open>The paths marked \<^verbatim>\<open>required\<close>: a required string must be non-empty.\<close>

definition required_ok :: "summary_doc \<Rightarrow> bool" where
  "required_ok d = (note d \<noteq> [] \<and> summary d \<noteq> [])"

fun replace_first :: "nat \<Rightarrow> summary_doc \<Rightarrow> collection \<Rightarrow> collection" where
  "replace_first i d' [] = []"
| "replace_first i d' (d # ds) = (if doc_id d = i then d' # ds else d # replace_first i d' ds)"

fun remove_first :: "nat \<Rightarrow> collection \<Rightarrow> collection" where
  "remove_first i [] = []"
| "remove_first i (d # ds) = (if doc_id d = i then ds else d # remove_first i ds)"


text \<open>\<^verbatim>\<open>new Summary(obj)\<close>: the schema defaults, then the paths of \<open>obj\<close>; the fresh
  \<^verbatim>\<open>_id\<close> and the clock are inputs. A value that does not cast fails the document's validation.\<close>

definition new_Summary :: "date_cast \<Rightarrow> nat \<Rightarrow> int \<Rightarrow> body \<Rightarrow> error + summary_doc" where
  "new_Summary D oid now obj =
    (case castObject D obj of
       Inl e \<Rightarrow> Inl ValidationError
     | Inr f \<Rightarrow> Inr (f \<lparr>doc_id = oid, note = [], summary = [], tags = [], starred = False,
                         slug = None, createdAt = Some now\<rparr>))"

text \<open>\<^verbatim>\<open>doc.save()\<close> of a new document: validation, then the insert under the unique indexes.\<close>

definition save_new :: "collection \<Rightarrow> summary_doc \<Rightarrow> error + collection" where
  "save_new db d =
    (if \<not> required_ok d then Inl ValidationError
     else if list_ex (\<lambda>x. doc_id x = doc_id d) db \<or> slug_taken db (doc_id d) (slug d) then Inl DuplicateKey
     else Inr (db @ [d]))"


text \<open>\<^verbatim>\<open>findByIdAndUpdate(id, update, { new: true })\<close>: casts the id and the update, then
  updates the document with that id, if any, and returns it as updated. No validator runs.\<close>

definition findByIdAndUpdate ::
  "date_cast \<Rightarrow> collection \<Rightarrow> id_param \<Rightarrow> body \<Rightarrow> error + (summary_doc \<times> collection) option" where
  "findByIdAndUpdate D db idp upd =
    (case idp of
       BadId \<Rightarrow> Inl CastError
     | Id i \<Rightarrow>
        (case castUpdate D upd of
           Inl e \<Rightarrow> Inl e
         | Inr f \<Rightarrow>
            (case find (\<lambda>d. doc_id d = i) db of
               None \<Rightarrow> Inr None
             | Some d \<Rightarrow>
                (if slug_taken db i (slug (f d)) then Inl DuplicateKey
                 else Inr (Some (f d, replace_first i (f d) db))))))"

definition findByIdAndDelete :: "collection \<Rightarrow> id_param \<Rightarrow> error + (summary_doc \<times> collection) option" where
  "findByIdAndDelete db idp =
    (case idp of
       BadId \<Rightarrow> Inl CastError
     | Id i \<Rightarrow>
        (case find (\<lambda>d. doc_id d = i) db of
           None \<Rightarrow> Inr None
         | Some d \<Rightarrow> Inr (Some (d, remove_first i db))))"


section \<open>The Summary handlers\<close>

subsection \<open>POST /api/summaries\<close>

definition cleaned :: "json list \<Rightarrow> jstring list" where
  "cleaned ts = take 10 (filter (\<lambda>t. t \<noteq> []) (map (\<lambda>t. trim (String_js t)) ts))"

text \<open>The handler behind \<^verbatim>\<open>verifyJWT\<close>. The fresh \<^verbatim>\<open>_id\<close> and the clock are inputs. The
  object given to \<^verbatim>\<open>new Summary\<close> has the keys \<open>note\<close>, \<open>summary\<close>, \<open>tags\<close> and \<open>userId\<close>.
  \<^verbatim>\<open>tags.map\<close> on a value that is no array is a TypeError.\<close>

definition post_summaries ::
  "date_cast \<Rightarrow> nat \<Rightarrow> int \<Rightarrow> collection \<Rightarrow> identity \<Rightarrow> body \<Rightarrow> response \<times> collection" where
  "post_summaries D oid now db user b =
    (let errors = validate_post b in
     if errors \<noteq> [] then (Response 400 (Errors errors), db)
     else
       (case (case b ''tags'' of None \<Rightarrow> Inr [] | Some (JArr ts) \<Rightarrow> Inr ts | Some v \<Rightarrow> Inl TypeError) of
          Inl e \<Rightarrow> (Response 500 (Thrown e), db)
        | Inr ts \<Rightarrow>
           (case new_Summary D oid now
                   ((\<lambda>k. None)(''note'' := b ''note'', ''summary'' := b ''summary'',
                               ''tags'' \<mapsto> JArr (map JStr (cleaned ts)),
                               ''userId'' \<mapsto> JStr (user_id user))) of
              Inl e \<Rightarrow> (Response 500 (Thrown e), db)
            | Inr d \<Rightarrow>
               (case save_new db d of
                  Inl e \<Rightarrow> (Response 500 (Thrown e), db)
                | Inr db' \<Rightarrow> (Response 201 (Doc d), db')))))"

subsection \<open>PUT /api/summaries/:id\<close>

text \<open>The handler behind \<^verbatim>\<open>verifyJWT\<close>: the whole body is the update.\<close>

definition put_summary :: "date_cast \<Rightarrow> collection \<Rightarrow> id_param \<Rightarrow> body \<Rightarrow> response \<times> collection" where
  "put_summary D db idp b =
    (let errors = validate_put b in
     if errors \<noteq> [] then (Response 400 (Errors errors), db)
     else
       (case findByIdAndUpdate D db idp b of
          Inl e \<Rightarrow> (Response 400 (Thrown e), db)
        | Inr None \<Rightarrow> (Response 404 (Message ''Summary not found''), db)
        | Inr (Some (updated, db')) \<Rightarrow> (Response 200 (Doc updated), db')))"

subsection \<open>DELETE /api/summaries/:id\<close>

definition delete_summary :: "collection \<Rightarrow> id_param \<Rightarrow> response \<times> collection" where
  "delete_summary db idp =
    (case findByIdAndDelete db idp of
       Inl e \<Rightarrow> (Response 400 (Thrown e), db)
     | Inr None \<Rightarrow> (Response 404 (Message ''Summary not found''), db)
     | Inr (Some (deleted, db')) \<Rightarrow> (Response 200 (Message ''Summary deleted successfully''), db'))"

subsection \<open>PATCH /api/summaries/:id/star\<close>


subsection \<open>POST /api/summaries/:id/share\<close>

text \<open>\<^verbatim>\<open>nanoid(n)\<close> reads \<open>n\<close> bytes of the random pool and maps each to the symbol that its
  low six bits select in the URL-safe alphabet. The pool is an unending sequence of bytes;
  a call returns the rest of it.\<close>

type_synonym random = "nat \<Rightarrow> nat"

definition urlAlphabet :: jstring where
  "urlAlphabet = js ''useandom-26T198340PX75pxJACKVERYMINDBUSHWOLF_GQZbfghjklqvwyzrict''"

definition nanoid :: "nat \<Rightarrow> random \<Rightarrow> jstring \<times> random" where
  "nanoid n rnd = (map (\<lambda>i. urlAlphabet ! (rnd i mod 64)) [0..<n], \<lambda>i. rnd (i + n))"

definition post_share ::
  "date_cast \<Rightarrow> random \<Rightarrow> collection \<Rightarrow> id_param \<Rightarrow> response \<times> collection \<times> random" where
  "post_share D rnd db idp =
    (let (slug, rnd') = nanoid 10 rnd in
     case findByIdAndUpdate D db idp [''slug'' \<mapsto> JStr slug] of
       Inl e \<Rightarrow> (Response 500 (Thrown e), db, rnd')
     | Inr None \<Rightarrow> (Response 404 (Message ''Summary not found''), db, rnd')
     | Inr (Some (updated, db')) \<Rightarrow> (Response 200 (Object [(''slug'', JStr slug)]), db', rnd'))"

subsection \<open>GET /api/s/:slug\<close>

definition tag_json :: "jstring option \<Rightarrow> json" where
  "tag_json t = (case t of None \<Rightarrow> JNull | Some s \<Rightarrow> JStr s)"

definition date_json :: "int option \<Rightarrow> json" where
  "date_json t = (case t of None \<Rightarrow> JNull | Some ms \<Rightarrow> JDate ms)"

definition get_s :: "collection \<Rightarrow> jstring \<Rightarrow> response" where
  "get_s db s =
    (case find (\<lambda>d. slug d = Some s) db of
       None \<Rightarrow> Response 404 (Message ''Not found'')
     | Some doc \<Rightarrow>
        Response 200 (Object [(''note'', JStr (note doc)), (''summary'', JStr (summary doc)),
                              (''tags'', JArr (map tag_json (tags doc))),
                              (''createdAt'', date_json (createdAt doc))]))"


section \<open>GET /api/summaries\<close>

subsection \<open>The filter: \<^verbatim>\<open>new RegExp(q, "i")\<close>\<close>

text \<open>
  Modelled is the pattern language of literal characters, groups \<^verbatim>\<open>( )\<close>, alternation \<^verbatim>\<open>|\<close>
  and the quantifiers \<^verbatim>\<open>*\<close>, \<^verbatim>\<open>+\<close>, \<^verbatim>\<open>?\<close> (greedy or lazy). The regular-expression engine
  is a parameter \<open>E\<close> with two parts: what the engine does with a pattern that uses any
  other syntax character (\<^verbatim>\<open>^ $ \ . [ ] { }\<close>), a group specifier \<^verbatim>\<open>(?\<close> or a character
  that is not plain (see below), and how it folds the case of a character beyond ASCII.
  \<^verbatim>\<open>new RegExp\<close> checks the syntax of the pattern and the store matches it. The length of a
  pattern is not limited here: the query string of a request is shorter (the server
  refuses a request head of more than 16 KiB) than the longest pattern that the store
  takes (32764 bytes).
\<close>

record engine =
  unmodelled :: "jstring \<Rightarrow> error + (jstring \<Rightarrow> bool)"
  fold_case :: "nat \<Rightarrow> nat"

datatype regex = Null | Eps | Chr nat | Seq regex regex | Alt regex regex | Star regex

text \<open>The flag \<^verbatim>\<open>i\<close>: two characters match when they fold to the same character. The
  letters a to z fold to A to Z, any other ASCII character to itself, and a character
  beyond ASCII as the engine folds it.\<close>

definition canonicalize :: "(nat \<Rightarrow> nat) \<Rightarrow> nat \<Rightarrow> nat" where
  "canonicalize F c =
    (if cp CHR ''a'' \<le> c \<and> c \<le> cp CHR ''z'' then c - 32 else if c < 128 then c else F c)"

fun nullable :: "regex \<Rightarrow> bool" where
  "nullable Null = False"
| "nullable Eps = True"
| "nullable (Chr d) = False"
| "nullable (Seq r s) = (nullable r \<and> nullable s)"
| "nullable (Alt r s) = (nullable r \<or> nullable s)"
| "nullable (Star r) = True"

text \<open>What is left of a pattern after it has read the character \<open>c\<close>.\<close>

fun deriv :: "(nat \<Rightarrow> nat) \<Rightarrow> nat \<Rightarrow> regex \<Rightarrow> regex" where
  "deriv F c Null = Null"
| "deriv F c Eps = Null"
| "deriv F c (Chr d) = (if canonicalize F c = canonicalize F d then Eps else Null)"
| "deriv F c (Seq r s) =
    (if nullable r then Alt (Seq (deriv F c r) s) (deriv F c s) else Seq (deriv F c r) s)"
| "deriv F c (Alt r s) = Alt (deriv F c r) (deriv F c s)"
| "deriv F c (Star r) = Seq (deriv F c r) (Star r)"

text \<open>A match that starts at the head of the subject.\<close>

fun match_here :: "(nat \<Rightarrow> nat) \<Rightarrow> regex \<Rightarrow> jstring \<Rightarrow> bool" where
  "match_here F r [] = nullable r"
| "match_here F r (c # cs) = (nullable r \<or> match_here F (deriv F c r) cs)"

text \<open>\<^verbatim>\<open>test\<close>: a match that starts at some index of the subject.\<close>

fun test :: "(nat \<Rightarrow> nat) \<Rightarrow> regex \<Rightarrow> jstring \<Rightarrow> bool" where
  "test F r [] = match_here F r []"
| "test F r (c # cs) = (match_here F r (c # cs) \<or> test F r cs)"

datatype qstate = Start | AfterAtom | AfterQuantifier

text \<open>The parser keeps, for the group it is in, the finished alternatives and the terms of
  the current alternative (both latest first), and whether a quantifier may follow.\<close>

record frame =
  alts :: "regex list"
  terms :: "regex list"
  quant :: qstate

definition empty_frame :: frame where
  "empty_frame = \<lparr>alts = [], terms = [], quant = Start\<rparr>"

definition alternative :: "regex list \<Rightarrow> regex" where
  "alternative ts = foldr Seq (rev ts) Eps"

definition disjunction :: "frame \<Rightarrow> regex" where
  "disjunction f = foldl (\<lambda>acc a. Alt a acc) (alternative (terms f)) (alts f)"

definition quantified :: "nat \<Rightarrow> regex \<Rightarrow> regex" where
  "quantified c r =
    (if c = cp CHR ''*'' then Star r else if c = cp CHR ''+'' then Seq r (Star r) else Alt Eps r)"

text \<open>One character of the pattern; \<open>None\<close> is a SyntaxError (unmatched \<^verbatim>\<open>)\<close>, nothing to
  repeat).\<close>

definition parse_step :: "nat \<Rightarrow> frame \<times> frame list \<Rightarrow> (frame \<times> frame list) option" where
  "parse_step c st =
    (let (f, stack) = st in
     if c = cp CHR ''('' then Some (empty_frame, f # stack)
     else if c = cp CHR '')'' then
       (case stack of
          [] \<Rightarrow> None
        | p # ps \<Rightarrow> Some (p\<lparr>terms := disjunction f # terms p, quant := AfterAtom\<rparr>, ps))
     else if c = cp CHR ''|'' then
       Some (f\<lparr>alts := alternative (terms f) # alts f, terms := [], quant := Start\<rparr>, stack)
     else if c \<in> set (js ''*+?'') then
       (case quant f of
          Start \<Rightarrow> None
        | AfterAtom \<Rightarrow>
           (case terms f of
              [] \<Rightarrow> None
            | t # ts \<Rightarrow> Some (f\<lparr>terms := quantified c t # ts, quant := AfterQuantifier\<rparr>, stack))
        | AfterQuantifier \<Rightarrow> (if c = cp CHR ''?'' then Some (f\<lparr>quant := Start\<rparr>, stack) else None))
     else Some (f\<lparr>terms := Chr c # terms f, quant := AfterAtom\<rparr>, stack))"

fun parse_from :: "frame \<times> frame list \<Rightarrow> jstring \<Rightarrow> regex option" where
  "parse_from st [] = (case snd st of [] \<Rightarrow> Some (disjunction (fst st)) | p # ps \<Rightarrow> None)"
| "parse_from st (c # cs) =
    (case parse_step c st of None \<Rightarrow> None | Some st' \<Rightarrow> parse_from st' cs)"

definition parse :: "jstring \<Rightarrow> regex option" where
  "parse q = parse_from (empty_frame, []) q"

fun group_specifier :: "jstring \<Rightarrow> bool" where
  "group_specifier (a # b # cs) =
    ((a = cp CHR ''('' \<and> b = cp CHR ''?'') \<or> group_specifier (b # cs))"
| "group_specifier cs = False"

text \<open>Some characters of a pattern do not reach the store as they are: a regular
  expression in BSON cannot hold NUL, the \<^verbatim>\<open>source\<close> of a \<^verbatim>\<open>RegExp\<close> has the line and
  paragraph separators U+2028 and U+2029 as the escapes \<^verbatim>\<open>\u2028\<close> and \<^verbatim>\<open>\u2029\<close>, and an
  unpaired surrogate is no character of a string in UTF-8. The other characters are plain.\<close>

definition plain_character :: "nat \<Rightarrow> bool" where
  "plain_character c =
    (0 < c \<and> c \<le> 0x10FFFF \<and> \<not> (0xD800 \<le> c \<and> c \<le> 0xDFFF) \<and> c \<noteq> 0x2028 \<and> c \<noteq> 0x2029)"

definition modelled :: "jstring \<Rightarrow> bool" where
  "modelled q =
    (list_all (\<lambda>c. plain_character c
        \<and> c \<notin> set (js [CHR ''^'', CHR ''$'', CHR 0x5C, CHR ''.'', CHR ''['', CHR '']'',
                           CHR ''{'', CHR ''}''])) q
     \<and> \<not> group_specifier q)"

definition RegExp_i :: "engine \<Rightarrow> jstring \<Rightarrow> error + (jstring \<Rightarrow> bool)" where
  "RegExp_i E q =
    (if modelled q then
       (case parse q of None \<Rightarrow> Inl SyntaxError | Some r \<Rightarrow> Inr (test (fold_case E) r))
     else unmodelled E q)"

text \<open>\<^verbatim>\<open>{ $or: [{ note: re }, { summary: re }, { tags: re }] }\<close>: an array field matches when
  one of its strings does.\<close>

definition or_filter :: "(jstring \<Rightarrow> bool) \<Rightarrow> summary_doc \<Rightarrow> bool" where
  "or_filter re d =
    (re (note d) \<or> re (summary d) \<or> list_ex (\<lambda>t. case t of None \<Rightarrow> False | Some s \<Rightarrow> re s) (tags d))"

subsection \<open>The sort\<close>

text \<open>\<^verbatim>\<open>.sort(sort)\<close>: by creation time, newest first (the default) or oldest first, with
  \<^verbatim>\<open>null\<close> below every time. The order for any other sort string is the parameter \<open>S\<close>.\<close>

type_synonym sorter = "jstring \<Rightarrow> collection \<Rightarrow> collection"

definition sort_docs :: "sorter \<Rightarrow> jstring \<Rightarrow> collection \<Rightarrow> collection" where
  "sort_docs S key ds =
    (if key = js ''-createdAt'' then rev (sort_key createdAt ds)
     else if key = js ''createdAt'' then sort_key createdAt ds
     else S key ds)"

subsection \<open>The handler\<close>

text \<open>The filter is the \<^verbatim>\<open>$or\<close> of the three regular expressions for a non-empty \<open>q\<close>, and
  \<^verbatim>\<open>{}\<close>, which every document passes, otherwise.\<close>

definition query_filter :: "engine \<Rightarrow> jstring \<Rightarrow> error + (summary_doc \<Rightarrow> bool)" where
  "query_filter E q = (if q \<noteq> [] then map_sum id or_filter (RegExp_i E q) else Inr (\<lambda>d. True))"

text \<open>The query parameters \<open>page\<close> and \<open>limit\<close> are given as the integers that \<^verbatim>\<open>Number\<close>
  makes of them; a missing parameter is 0.\<close>

definition get_summaries ::
  "engine \<Rightarrow> sorter \<Rightarrow> collection \<Rightarrow> jstring option \<Rightarrow> int option \<Rightarrow> int option \<Rightarrow> jstring option
   \<Rightarrow> response" where
  "get_summaries E S db q_param page_param limit_param sort_param =
    (let q = trim (case q_param of None \<Rightarrow> [] | Some s \<Rightarrow> s);
         page = (case page_param of None \<Rightarrow> 0 | Some n \<Rightarrow> n);
         limit = (case limit_param of None \<Rightarrow> 0 | Some n \<Rightarrow> n);
         sort = (case sort_param of None \<Rightarrow> js ''-createdAt''
                 | Some s \<Rightarrow> if s = [] then js ''-createdAt'' else s)
     in case query_filter E q of
          Inl error \<Rightarrow> Response 500 (Thrown error)
        | Inr flt \<Rightarrow>
           (if page > 0 \<and> limit > 0 then
              (let skip = (page - 1) * limit;
                   items = take (nat limit) (drop (nat skip) (sort_docs S sort (filter flt db)));
                   total = int (length (filter flt db))
               in Response 200 (Page items page \<lceil>real_of_int total / real_of_int limit\<rceil> total))
            else Response 200 (Docs (sort_docs S sort (filter flt db)))))"


section \<open>Authentication\<close>

subsection \<open>Signing and verifying tokens\<close>

text \<open>
  The signature of a token is a keyed hash of its claims; the hash is the parameter \<open>mac\<close>.
  \<^verbatim>\<open>jwt.sign(payload, secret, { expiresIn })\<close> stamps the payload with the time of issue, in
  seconds, and the expiry. The clock is an input, in milliseconds.
\<close>

type_synonym mac = "jstring \<Rightarrow> claims \<Rightarrow> jstring"

definition jwt_sign :: "mac \<Rightarrow> int \<Rightarrow> jstring \<Rightarrow> jstring \<Rightarrow> jstring \<Rightarrow> int \<Rightarrow> token" where
  "jwt_sign mac now pid pemail secret expiresIn =
    (let timestamp = now div 1000;
         c = \<lparr>claim_id = pid, claim_email = pemail, iat = timestamp, exp = timestamp + expiresIn\<rparr>
     in JWT c (mac secret c))"

text \<open>\<^verbatim>\<open>jwt.verify(token, secret)\<close>: the signature is checked first, then the expiry.\<close>

fun jwt_verify :: "mac \<Rightarrow> int \<Rightarrow> token \<Rightarrow> jstring \<Rightarrow> error + claims" where
  "jwt_verify mac now (Garbage s) secret = Inl JsonWebTokenError"
| "jwt_verify mac now (JWT c sig) secret =
    (if sig \<noteq> mac secret c then Inl JsonWebTokenError
     else if now div 1000 \<ge> exp c then Inl TokenExpiredError
     else Inr c)"

text \<open>Modelled from the spec: the User model (\<^verbatim>\<open>models/User.js\<close>) is not among the sources.
  A User has an opaque id, the email as it was given, and a one-way hash of the password;
  the hash is the parameter \<open>H\<close>, and the fresh id is an input of \<open>User_create\<close>.\<close>

record user =
  user_oid :: jstring
  user_email :: jstring
  passwordHash :: jstring

definition User_findOne :: "user list \<Rightarrow> jstring \<Rightarrow> user option" where
  "User_findOne users e = find (\<lambda>u. user_email u = e) users"

definition User_create ::
  "(jstring \<Rightarrow> jstring) \<Rightarrow> jstring \<Rightarrow> user list \<Rightarrow> jstring \<Rightarrow> jstring \<Rightarrow> user \<times> user list" where
  "User_create H oid users e password =
    (let u = \<lparr>user_oid = oid, user_email = e, passwordHash = H password\<rparr> in (u, users @ [u]))"

text \<open>\<^verbatim>\<open>sign\<close> of \<^verbatim>\<open>routes/auth.js\<close>: fifteen minutes are 900 seconds.\<close>

definition sign :: "mac \<Rightarrow> jstring \<Rightarrow> int \<Rightarrow> user \<Rightarrow> token" where
  "sign mac secret now u = jwt_sign mac now (user_oid u) (user_email u) secret 900"

subsection \<open>POST /api/auth/register\<close>

text \<open>\<^verbatim>\<open>isEmail\<close> is a parameter. The query casts the email to a string and the new
  document casts the password; both are required of a User.\<close>

definition cast_field :: "json option \<Rightarrow> error + jstring option" where
  "cast_field x = (case x of None \<Rightarrow> Inr None | Some v \<Rightarrow> castString v)"

definition register ::
  "(jstring \<Rightarrow> bool) \<Rightarrow> (jstring \<Rightarrow> jstring) \<Rightarrow> mac \<Rightarrow> jstring \<Rightarrow> jstring \<Rightarrow> int \<Rightarrow> user list
   \<Rightarrow> body \<Rightarrow> response \<times> user list" where
  "register isEmail H mac secret oid now users b =
    (let errors = failing
           [(''email'', standard isEmail (b ''email'')),
            (''password'', standard (\<lambda>s. 6 \<le> validator_length s) (b ''password''))]
     in if errors \<noteq> [] then (Response 400 (Errors errors), users)
        else
          (case cast_field (b ''email'') of
             Inl e \<Rightarrow> (Response 500 (Thrown e), users)
           | Inr None \<Rightarrow> (Response 500 (Thrown ValidationError), users)
           | Inr (Some e) \<Rightarrow>
              (case User_findOne users e of
                 Some exists \<Rightarrow> (Response 409 (Message ''Email already registered''), users)
               | None \<Rightarrow>
                  (case cast_field (b ''password'') of
                     Inr (Some password) \<Rightarrow>
                      (let (u, users') = User_create H oid users e password
                       in (Response 201
                             (Auth (sign mac secret now u) \<lparr>user_id = user_oid u, email = user_email u\<rparr>),
                           users'))
                   | _ \<Rightarrow> (Response 500 (Thrown ValidationError), users)))))"

subsection \<open>The middleware\<close>

text \<open>The \<^verbatim>\<open>Authorization\<close> header is \<^verbatim>\<open>Bearer\<close>, a space and a token, or some other
  string. The empty token is falsy.\<close>

datatype authorization = Bearer token | Other jstring

definition verifyJWT :: "mac \<Rightarrow> jstring \<Rightarrow> int \<Rightarrow> authorization option \<Rightarrow> response + identity" where
  "verifyJWT mac secret now header =
    (let auth = (case header of None \<Rightarrow> Other [] | Some a \<Rightarrow> a);
         token = (case auth of Bearer t \<Rightarrow> Some t | Other s \<Rightarrow> None)
     in case token of
          None \<Rightarrow> Inl (Response 401 (Message ''Unauthorized''))
        | Some t \<Rightarrow>
           (if t = Garbage [] then Inl (Response 401 (Message ''Unauthorized''))
            else
              (case jwt_verify mac now t secret of
                 Inl e \<Rightarrow> Inl (Response 401 (Message ''Invalid token''))
               | Inr payload \<Rightarrow> Inr \<lparr>user_id = claim_id payload, email = claim_email payload\<rparr>)))"

text \<open>A route behind \<^verbatim>\<open>verifyJWT\<close>: the handler runs only for a verified identity.\<close>

definition protected ::
  "mac \<Rightarrow> jstring \<Rightarrow> int \<Rightarrow> authorization option \<Rightarrow> 'st \<Rightarrow> (identity \<Rightarrow> response \<times> 'st)
   \<Rightarrow> response \<times> 'st" where
  "protected mac secret now header st handler =
    (case verifyJWT mac secret now header of Inl denied \<Rightarrow> (denied, st) | Inr u \<Rightarrow> handler u)"


subsection \<open>The protected routes\<close>

definition POST_summaries ::
  "mac \<Rightarrow> jstring \<Rightarrow> date_cast \<Rightarrow> nat \<Rightarrow> int \<Rightarrow> collection \<Rightarrow> authorization option \<Rightarrow> body
   \<Rightarrow> response \<times> collection" where
  "POST_summaries mac secret D oid now db header b =
    protected mac secret now header db (\<lambda>u. post_summaries D oid now db u b)"

definition PUT_summary ::
  "mac \<Rightarrow> jstring \<Rightarrow> date_cast \<Rightarrow> int \<Rightarrow> collection \<Rightarrow> authorization option \<Rightarrow> id_param \<Rightarrow> body
   \<Rightarrow> response \<times> collection" where
  "PUT_summary mac secret D now db header idp b =
    protected mac secret now header db (\<lambda>u. put_summary D db idp b)"

definition DELETE_summary ::
  "mac \<Rightarrow> jstring \<Rightarrow> int \<Rightarrow> collection \<Rightarrow> authorization option \<Rightarrow> id_param \<Rightarrow> response \<times> collection" where
  "DELETE_summary mac secret now db header idp =
    protected mac secret now header db (\<lambda>u. delete_summary db idp)"

section \<open>Notions of the specification and sample data\<close>

text \<open>The invariant of \<open>tags\<close> in the data model: at most 10 tags, each one a trimmed,
  non-empty string.\<close>

definition tags_ok :: "summary_doc \<Rightarrow> bool" where
  "tags_ok d = (length (tags d) \<le> 10 \<and>
     list_all (\<lambda>t. case t of None \<Rightarrow> False | Some s \<Rightarrow> s \<noteq> [] \<and> trim s = s) (tags d))"

text \<open>The invariant of \<open>slug\<close>: no two Summaries carry the same slug.\<close>

definition unique_slugs :: "collection \<Rightarrow> bool" where
  "unique_slugs db = distinct (List.map_filter slug db)"

text \<open>The record of the repository's test: \<^verbatim>\<open>{note: "hello world", summary: "hello",
  tags: ["t1"]}\<close>, stored with id 1 at time 1000.\<close>

definition sample_doc :: summary_doc where
  "sample_doc = \<lparr>doc_id = 1, note = js ''hello world'', summary = js ''hello'',
     tags = [Some (js ''t1'')], starred = False, slug = None, createdAt = Some 1000\<rparr>"

text \<open>The syntax characters of a pattern; a pattern of plain characters without them is
  a literal text.\<close>

definition syntax_characters :: jstring where
  "syntax_characters = js [CHR ''^'', CHR ''$'', CHR 0x5C, CHR ''.'', CHR ''*'', CHR ''+'', CHR ''?'',
     CHR ''('', CHR '')'', CHR ''['', CHR '']'', CHR ''{'', CHR ''}'', CHR ''|'']"

definition literal :: "jstring \<Rightarrow> bool" where
  "literal q = list_all (\<lambda>c. plain_character c \<and> c \<notin> set syntax_characters) q"

text \<open>\<open>x\<close> occurs case-insensitively as a substring of \<open>s\<close>: after case folding, the
  characters of \<open>x\<close> are a contiguous part of those of \<open>s\<close>.\<close>

definition occurs :: "(nat \<Rightarrow> nat) \<Rightarrow> jstring \<Rightarrow> jstring \<Rightarrow> bool" where
  "occurs F x s = sublist (map (canonicalize F) x) (map (canonicalize F) s)"

text \<open>\<open>x\<close> occurs in the note, in the summary or in at least one tag of the record.\<close>

definition record_matches :: "(nat \<Rightarrow> nat) \<Rightarrow> jstring \<Rightarrow> summary_doc \<Rightarrow> bool" where
  "record_matches F x d =
    (occurs F x (note d) \<or> occurs F x (summary d)
     \<or> list_ex (\<lambda>t. case t of None \<Rightarrow> False | Some s \<Rightarrow> occurs F x s) (tags d))"


text \<open>Sample parameters for the closed instances below: an engine that rejects every
  pattern handed to it and folds no character beyond ASCII, a store that leaves any other
  sort in insertion order, a date cast that fails, a random pool of zero bytes and one that
  counts, and toy stand-ins for the email check, the password hash and the keyed hash.\<close>

definition sample_engine :: engine where
  "sample_engine = \<lparr>unmodelled = (\<lambda>q. Inl SyntaxError), fold_case = (\<lambda>c. c)\<rparr>"

text \<open>An engine that also folds the small letters of Latin-1 to their capitals.\<close>

definition latin1_engine :: engine where
  "latin1_engine = \<lparr>unmodelled = (\<lambda>q. Inl SyntaxError),
     fold_case = (\<lambda>c. if 0xE0 \<le> c \<and> c \<le> 0xFE \<and> c \<noteq> 0xF7 then c - 32 else c)\<rparr>"

definition insertion_order :: sorter where
  "insertion_order key ds = ds"

definition sample_date_cast :: date_cast where
  "sample_date_cast v = Inl CastError"

definition zero_pool :: random where
  "zero_pool i = 0"

definition counting_pool :: random where
  "counting_pool i = i"

definition sample_isEmail :: "jstring \<Rightarrow> bool" where
  "sample_isEmail s = (cp CHR ''@'' \<in> set s)"

definition sample_hash :: "jstring \<Rightarrow> jstring" where
  "sample_hash password = rev password"

definition sample_mac :: mac where
  "sample_mac secret c = secret @ claim_id c @ claim_email c"


section \<open>Properties\<close>

subsection \<open>Tags on create and update\<close>

lemma trim_ends: "trim s = [] \<or> (\<not> isWhiteSpace (hd (trim s)) \<and> \<not> isWhiteSpace (last (trim s)))"
proof (cases "trim s = []")
  case True then show ?thesis by simp
next
  case False
  define u where "u = dropWhile isWhiteSpace s"
  define v where "v = dropWhile isWhiteSpace (rev u)"
  have t: "trim s = rev v" by (simp add: trim_def u_def v_def)
  with False have v: "v \<noteq> []" by simp
  then have hv: "\<not> isWhiteSpace (hd v)" unfolding v_def by (rule hd_dropWhile)
  have "rev u = takeWhile isWhiteSpace (rev u) @ v" by (simp add: v_def)
  with v have "last (rev u) = last v" by (metis last_appendR)
  moreover have "u \<noteq> []" using v v_def by auto
  ultimately have "last v = hd u" by (simp add: last_rev)
  moreover have "\<not> isWhiteSpace (hd u)" using \<open>u \<noteq> []\<close> unfolding u_def by (rule hd_dropWhile)
  ultimately have "\<not> isWhiteSpace (last v)" by simp
  with hv v t show ?thesis by (simp add: hd_rev last_rev)
qed

lemma trim_fixed: "t = [] \<or> (\<not> isWhiteSpace (hd t) \<and> \<not> isWhiteSpace (last t)) \<Longrightarrow> trim t = t"
proof -
  assume a: "t = [] \<or> (\<not> isWhiteSpace (hd t) \<and> \<not> isWhiteSpace (last t))"
  then have 1: "dropWhile isWhiteSpace t = t" by (auto simp: dropWhile_eq_self_iff)
  from a have "rev t = [] \<or> \<not> isWhiteSpace (hd (rev t))" by (auto simp: hd_rev)
  then have 2: "dropWhile isWhiteSpace (rev t) = rev t" by (simp only: dropWhile_eq_self_iff)
  show ?thesis by (simp add: trim_def 1 2)
qed

text \<open>Every white space character and line terminator is trimmed; the zero width space
  U+200B, the Mongolian vowel separator U+180E and the next-line control U+0085 are none.\<close>

lemma trim_white_space:
  "trim ([0x09, 0x0A, 0x0B, 0x0C, 0x0D, 0x20, 0xA0, 0x1680, 0x2000, 0x2005, 0x200A, 0x2028, 0x2029,
          0x202F, 0x205F, 0x3000, 0xFEFF] @ js ''t1'' @ [0x3000, 0x2028, 0xFEFF, 0xA0, 0x20]) = js ''t1''"
  "trim [0x200B] = [0x200B]" "trim [0x180E] = [0x180E]" "trim [0x85] = [0x85]"
  by (simp_all add: trim_def isWhiteSpace_def js_def cp_def)

lemma trim_idem: "trim (trim s) = trim s"
  using trim_ends [of s] by (rule trim_fixed)

lemma castAll_trimmed:
  "list_all (\<lambda>t. trim t = t) ts \<Longrightarrow> castAll castTag (map JStr ts) = Inr (map Some ts)"
  by (induction ts) (simp_all add: castTag_def)

lemma cleaned_props: "length (cleaned ts) \<le> 10 \<and> list_all (\<lambda>t. t \<noteq> [] \<and> trim t = t) (cleaned ts)"
proof -
  have "list_all (\<lambda>t. t \<noteq> [] \<and> trim t = t) (filter (\<lambda>t. t \<noteq> []) (map (\<lambda>t. trim (String_js t)) ts))"
    by (induction ts) (simp_all add: trim_idem)
  then have "list_all (\<lambda>t. t \<noteq> [] \<and> trim t = t) (cleaned ts)"
    unfolding cleaned_def list_all_iff by (meson in_set_takeD)
  then show ?thesis by (simp add: cleaned_def)
qed

lemma new_Summary_tags:
  assumes "new_Summary D oid now ((\<lambda>k. None)(''note'' := n, ''summary'' := s,
                               ''tags'' \<mapsto> JArr (map JStr (cleaned ts)),
                               ''userId'' \<mapsto> u)) = Inr d"
  shows "tags d = map Some (cleaned ts)"
proof -
  have c: "castAll castTag (map JStr (cleaned ts)) = Inr (map Some (cleaned ts))"
    using cleaned_props [of ts] by (simp add: castAll_trimmed list_all_iff)
  show ?thesis using assms
    by (auto simp: new_Summary_def castObject_def strict_def schema_paths_def set_path_def c
        split: option.splits sum.splits)
qed

lemma post_summaries_tags_ok:
  assumes "post_summaries D oid now db u b = (Response 201 (Doc d), db')"
  shows "tags_ok d"
proof -
  from assms obtain ts n s uu where "new_Summary D oid now ((\<lambda>k. None)(''note'' := n, ''summary'' := s,
                               ''tags'' \<mapsto> JArr (map JStr (cleaned ts)),
                               ''userId'' \<mapsto> uu)) = Inr d"
    unfolding post_summaries_def Let_def
    by (auto split: if_splits sum.splits option.splits json.splits)
  then have "tags d = map Some (cleaned ts)" by (rule new_Summary_tags)
  then show ?thesis using cleaned_props [of ts] by (simp add: tags_ok_def list_all_iff)
qed

text \<open>
  Claim C4: after create and after update a Summary has at most 10 tags, each one a
  trimmed, non-empty string. Create establishes this (\<open>post_summaries_tags_ok\<close>). Update
  validates only that \<open>tags\<close> is an array of at most 10 elements and does not clean them:
  an empty string is stored as a tag.
\<close>

theorem put_summary_stores_empty_tag:
  "put_summary D [sample_doc] (Id 1) [''tags'' \<mapsto> JArr [JStr []]]
     = (Response 200 (Doc (sample_doc\<lparr>tags := [Some []]\<rparr>)), [sample_doc\<lparr>tags := [Some []]\<rparr>])
   \<and> \<not> tags_ok (sample_doc\<lparr>tags := [Some []]\<rparr>)"
  by (simp add: put_summary_def validate_put_def failing_def optional_def findByIdAndUpdate_def
      castUpdate_def castObject_def set_operator_def strict_def schema_paths_def set_path_def slug_taken_def sample_doc_def
      castTag_def trim_def tags_ok_def)

subsection \<open>Ownership and the frame of update\<close>

lemma new_Summary_userId: "new_Summary D oid now (obj(''userId'' := v)) = new_Summary D oid now obj"
proof -
  have "strict (obj(''userId'' := v)) = strict obj"
    by (auto simp: strict_def schema_paths_def)
  then show ?thesis by (simp add: new_Summary_def castObject_def)
qed

text \<open>
  Claim C2: every Summary created through the authenticated create operation carries the
  identifier of the creating User in the stored document. The handler passes the creator to
  the constructor under the key \<open>userId\<close>, which is no path of the schema, so strict mode
  drops it: the response and the stored collection are the same whoever the creator is.
\<close>

theorem post_summaries_drops_owner:
  "post_summaries D oid now db u1 b = post_summaries D oid now db u2 b"
  unfolding post_summaries_def new_Summary_userId ..

text \<open>
  Claim C1: an update changes only \<open>note\<close>, \<open>summary\<close>, \<open>tags\<close> and \<open>starred\<close>; \<open>createdAt\<close> and
  \<open>slug\<close> cannot be reassigned by extra keys of the body. The handler passes the whole body
  on as the update: a body with the keys \<open>createdAt\<close> and \<open>slug\<close> passes validation and
  overwrites both fields of the sample record.
\<close>

theorem put_summary_overwrites_createdAt:
  "put_summary D [sample_doc] (Id 1) [''createdAt'' \<mapsto> JNum 0, ''slug'' \<mapsto> JStr (js ''mine'')]
     = (Response 200 (Doc (sample_doc\<lparr>slug := Some (js ''mine''), createdAt := Some 0\<rparr>)),
        [sample_doc\<lparr>slug := Some (js ''mine''), createdAt := Some 0\<rparr>])"
  by (simp add: put_summary_def validate_put_def failing_def optional_def findByIdAndUpdate_def
      castUpdate_def castObject_def set_operator_def strict_def schema_paths_def set_path_def slug_taken_def sample_doc_def)

subsection \<open>The public read\<close>

lemma find_unique_slug:
  "unique_slugs db \<Longrightarrow> d \<in> set db \<Longrightarrow> slug d = Some s \<Longrightarrow> find (\<lambda>x. slug x = Some s) db = Some d"
proof (induction db)
  case Nil then show ?case by simp
next
  case (Cons a db)
  show ?case
  proof (cases "slug a = Some s")
    case True
    have "d = a"
    proof (rule ccontr)
      assume "d \<noteq> a"
      with Cons.prems have "d \<in> set db" by simp
      with Cons.prems(3) have "s \<in> set (List.map_filter slug db)"
        by (force simp: map_filter_def)
      with True Cons.prems(1) show False by (simp add: unique_slugs_def map_filter_simps)
    qed
    with True show ?thesis by simp
  next
    case False
    with Cons.prems have "d \<in> set db" by auto
    moreover from Cons.prems(1) have "unique_slugs db"
      by (cases "slug a") (simp_all add: unique_slugs_def map_filter_simps)
    ultimately show ?thesis using Cons.IH Cons.prems(3) False by simp
  qed
qed

text \<open>
  Claim C8: for a slug that a stored Summary carries, the public read answers 200 with the
  object of exactly the four keys \<open>note\<close>, \<open>summary\<close>, \<open>tags\<close>, \<open>createdAt\<close> of that record
  (no id, no owner, no slug); for a slug that no record carries it answers 404.
\<close>

theorem get_s_projection:
  assumes "unique_slugs db"
  shows "(\<forall>d\<in>set db. slug d = Some s \<longrightarrow>
            get_s db s = Response 200 (Object [(''note'', JStr (note d)), (''summary'', JStr (summary d)),
                              (''tags'', JArr (map tag_json (tags d))),
                              (''createdAt'', date_json (createdAt d))]))
       \<and> ((\<forall>d\<in>set db. slug d \<noteq> Some s) \<longrightarrow> get_s db s = Response 404 (Message ''Not found''))"
proof (intro conjI ballI impI)
  fix d assume "d \<in> set db" "slug d = Some s"
  with assms have "find (\<lambda>x. slug x = Some s) db = Some d" by (rule find_unique_slug)
  then show "get_s db s = Response 200 (Object [(''note'', JStr (note d)), (''summary'', JStr (summary d)),
                              (''tags'', JArr (map tag_json (tags d))),
                              (''createdAt'', date_json (createdAt d))])"
    by (simp add: get_s_def)
next
  assume "\<forall>d\<in>set db. slug d \<noteq> Some s"
  then have "find (\<lambda>x. slug x = Some s) db = None" by (simp add: find_None_iff)
  then show "get_s db s = Response 404 (Message ''Not found'')" by (simp add: get_s_def)
qed

theorem get_s_projection_witness:
  "unique_slugs [sample_doc\<lparr>slug := Some (js ''V1StGXR8_Z'')\<rparr>]
   \<and> get_s [sample_doc\<lparr>slug := Some (js ''V1StGXR8_Z'')\<rparr>] (js ''V1StGXR8_Z'')
       = Response 200 (Object [(''note'', JStr (js ''hello world'')), (''summary'', JStr (js ''hello'')),
                               (''tags'', JArr [JStr (js ''t1'')]), (''createdAt'', JDate 1000)])
   \<and> get_s [sample_doc\<lparr>slug := Some (js ''V1StGXR8_Z'')\<rparr>] (js ''other'') = Response 404 (Message ''Not found'')"
  using get_s_projection [of "[sample_doc\<lparr>slug := Some (js ''V1StGXR8_Z'')\<rparr>]" "js ''V1StGXR8_Z''"]
        get_s_projection [of "[sample_doc\<lparr>slug := Some (js ''V1StGXR8_Z'')\<rparr>]" "js ''other''"]
  by (simp add: unique_slugs_def map_filter_simps sample_doc_def tag_json_def date_json_def js_def cp_def)

subsection \<open>The star endpoint\<close>

lemma find_doc_id: "find (\<lambda>x. doc_id x = i) db = Some d \<Longrightarrow> doc_id d = i"
  by (induction db) (auto split: if_splits)


lemma find_replace_first:
  "find (\<lambda>x. doc_id x = i) db = Some d \<Longrightarrow> doc_id d' = i \<Longrightarrow>
     find (\<lambda>x. doc_id x = i) (replace_first i d' db) = Some d'"
  by (induction db) (auto split: if_splits)




text \<open>In the update a top-level key goes before the same key under \<^verbatim>\<open>$set\<close>, and the last
  of two equal keys of a parsed object before the first.\<close>

lemma set_operator_precedence:
  "set_operator [''note'' \<mapsto> JStr (js ''c''), ''$set'' \<mapsto> JObj [(''note'', JStr (js ''a''))]] ''note''
     = Some (JStr (js ''c''))"
  "set_operator [''$set'' \<mapsto> JObj [(''note'', JStr (js ''a'')), (''note'', JStr (js ''b''))]] ''note''
     = Some (JStr (js ''b''))"
  by (simp_all add: set_operator_def map_add_def)







subsection \<open>The filter of the list\<close>

lemma literal_modelled: "literal q \<Longrightarrow> modelled q"
proof -
  assume l: "literal q"
  have "\<not> group_specifier q" using l
    by (induction q rule: group_specifier.induct) (auto simp: literal_def syntax_characters_def js_def)
  moreover have "list_all (\<lambda>c. plain_character c
        \<and> c \<notin> set (js [CHR ''^'', CHR ''$'', CHR 0x5C, CHR ''.'', CHR ''['', CHR '']'',
                           CHR ''{'', CHR ''}''])) q"
    using l by (auto simp: literal_def syntax_characters_def list_all_iff js_def)
  ultimately show ?thesis by (simp add: modelled_def)
qed

text \<open>A slash, a line feed and a character beyond ASCII are plain; NUL, the line separator
  and an unpaired surrogate are not.\<close>

lemma literal_characters:
  "literal (js ''a/b-c d'' @ [0x0A, 0xE9, 0x1F600])"
  "\<not> literal [0x61, 0x2028, 0x62]" "\<not> literal [0x61, 0]" "\<not> literal [0xD83D]"
  "\<not> literal (js ''a.b'')"
  by (simp_all add: literal_def syntax_characters_def plain_character_def js_def cp_def)

lemma parse_step_literal:
  "c \<notin> set syntax_characters \<Longrightarrow>
     parse_step c (f, stack) = Some (f\<lparr>terms := Chr c # terms f, quant := AfterAtom\<rparr>, stack)"
  by (auto simp: parse_step_def syntax_characters_def js_def)

lemma parse_from_literal:
  "literal q \<Longrightarrow>
     parse_from (f, []) q =
       Some (foldl (\<lambda>acc a. Alt a acc) (alternative (rev (map Chr q) @ terms f)) (alts f))"
proof (induction q arbitrary: f)
  case Nil
  then show ?case by (simp add: disjunction_def)
next
  case (Cons c cs)
  then have c: "c \<notin> set syntax_characters" and cs: "literal cs" by (simp_all add: literal_def)
  show ?case by (simp add: parse_step_literal [OF c] Cons.IH [OF cs])
qed

lemma parse_literal: "literal q \<Longrightarrow> parse q = Some (foldr Seq (map Chr q) Eps)"
  by (simp add: parse_def parse_from_literal empty_frame_def alternative_def)

lemma match_here_Null: "\<not> match_here F Null s"
  by (induction s) simp_all

lemma match_here_Seq_Null: "\<not> match_here F (Seq Null r) s"
  by (induction s) simp_all

lemma match_here_Seq_Eps: "match_here F (Seq Eps r) s = match_here F r s"
proof (cases s)
  case Nil then show ?thesis by simp
next
  case (Cons c cs)
  have alt: "match_here F (Alt a b) t = (match_here F a t \<or> match_here F b t)" for a b t
    by (induction t arbitrary: a b) auto
  show ?thesis using Cons by (simp add: alt match_here_Seq_Null)
qed

lemma match_here_literal:
  "match_here F (foldr Seq (map Chr q) Eps) s = prefix (map (canonicalize F) q) (map (canonicalize F) s)"
proof (induction q arbitrary: s)
  case Nil
  then show ?case by (cases s) simp_all
next
  case (Cons x xs)
  show ?case
  proof (cases s)
    case Nil then show ?thesis by simp
  next
    case (Cons c cs)
    then show ?thesis
      using Cons.IH [of cs]
      by (auto simp: match_here_Seq_Eps match_here_Seq_Null)
  qed
qed

lemma test_literal: "test F (foldr Seq (map Chr q) Eps) s = occurs F q s"
proof (induction s)
  case Nil
  have "test F (foldr Seq (map Chr q) Eps) [] = prefix (map (canonicalize F) q) (map (canonicalize F) [])"
    by (simp only: test.simps match_here_literal)
  then show ?case by (simp add: occurs_def)
next
  case (Cons c cs)
  have "test F (foldr Seq (map Chr q) Eps) (c # cs)
      = (prefix (map (canonicalize F) q) (map (canonicalize F) (c # cs)) \<or> occurs F q cs)"
    using Cons.IH by (simp only: test.simps match_here_literal)
  then show ?case by (simp add: occurs_def sublist_Cons_right)
qed

lemma RegExp_i_literal: "literal q \<Longrightarrow> RegExp_i E q = Inr (occurs (fold_case E) q)"
proof -
  assume l: "literal q"
  have "test (fold_case E) (foldr Seq (map Chr q) Eps) = occurs (fold_case E) q"
    by (rule ext) (rule test_literal)
  then show ?thesis by (simp add: RegExp_i_def literal_modelled [OF l] parse_literal [OF l])
qed

lemma query_filter_literal:
  "literal q \<Longrightarrow> q \<noteq> [] \<Longrightarrow> query_filter E q = Inr (record_matches (fold_case E) q)"
proof -
  assume "literal q" "q \<noteq> []"
  moreover have "or_filter (occurs F q) = record_matches F q" for F
    by (rule ext) (simp add: or_filter_def record_matches_def)
  ultimately show ?thesis by (simp add: query_filter_def RegExp_i_literal)
qed

lemma mset_sort_docs:
  "(\<And>k xs. mset (S k xs) = mset xs) \<Longrightarrow> mset (sort_docs S key ds) = mset ds"
  by (simp add: sort_docs_def)

text \<open>
  Claim C3, as amended: the handler trims the filter string \<open>X\<close>, any string of Unicode
  characters, of the white space and the line terminators of ECMAScript, and reads what is
  left, \<open>q\<close>, as a regular expression. If \<open>q\<close> is empty, the list holds every record. If \<open>q\<close>
  is non-empty and a literal text, of plain characters none of which is a syntax character,
  the request succeeds and the list holds exactly
  the records in which \<open>q\<close> occurs case-insensitively as a substring of the note, of the
  summary or of at least one tag, where the letters a to z fold to A to Z and a character
  beyond ASCII folds as the engine folds it. The store's sort returns a permutation of what
  it is given.
\<close>

theorem get_summaries_literal_filter:
  assumes "\<And>k xs. mset (S k xs) = mset xs"
  shows "(trim X = [] \<longrightarrow>
           (\<exists>ds. get_summaries E S db (Some X) None None srt = Response 200 (Docs ds)
                  \<and> mset ds = mset db))
       \<and> (trim X \<noteq> [] \<and> literal (trim X) \<longrightarrow>
           (\<exists>ds. get_summaries E S db (Some X) None None srt = Response 200 (Docs ds)
                  \<and> mset ds = mset (filter (record_matches (fold_case E) (trim X)) db)))"
proof (intro conjI impI)
  assume "trim X = []"
  then show "\<exists>ds. get_summaries E S db (Some X) None None srt = Response 200 (Docs ds) \<and> mset ds = mset db"
    by (simp add: get_summaries_def query_filter_def mset_sort_docs [OF assms])
next
  assume "trim X \<noteq> [] \<and> literal (trim X)"
  then have "query_filter E (trim X) = Inr (record_matches (fold_case E) (trim X))"
    by (simp add: query_filter_literal)
  then show "\<exists>ds. get_summaries E S db (Some X) None None srt = Response 200 (Docs ds)
                  \<and> mset ds = mset (filter (record_matches (fold_case E) (trim X)) db)"
    by (simp add: get_summaries_def mset_sort_docs [OF assms])
qed

theorem get_summaries_literal_filter_witness:
  "trim ([0xA0, 0xFEFF, 0x2028, 0x3000, 0x09] @ js ''HELLO'' @ [0x2003, 0x0A, 0x20]) = js ''HELLO''
   \<and> literal (js ''HELLO'')
   \<and> get_summaries sample_engine insertion_order
        [sample_doc, sample_doc\<lparr>doc_id := 2, note := js ''bye'', summary := js ''b'', tags := []\<rparr>]
        (Some ([0xA0, 0xFEFF, 0x2028, 0x3000, 0x09] @ js ''HELLO'' @ [0x2003, 0x0A, 0x20])) None None None
      = Response 200 (Docs [sample_doc])
   \<and> get_summaries latin1_engine insertion_order
        [sample_doc, sample_doc\<lparr>doc_id := 2, note := js ''Un CAF'' @ [0xC9], summary := js ''b'', tags := []\<rparr>]
        (Some (js ''caf'' @ [0xE9])) None None None
      = Response 200 (Docs [sample_doc\<lparr>doc_id := 2, note := js ''Un CAF'' @ [0xC9], summary := js ''b'', tags := []\<rparr>])
   \<and> get_summaries sample_engine insertion_order
        [sample_doc, sample_doc\<lparr>doc_id := 2, note := js ''Un CAF'' @ [0xC9], summary := js ''b'', tags := []\<rparr>]
        (Some (js ''caf'' @ [0xE9])) None None None
      = Response 200 (Docs [])"
proof -
  let ?X = "[0xA0, 0xFEFF, 0x2028, 0x3000, 0x09] @ js ''HELLO'' @ [0x2003, 0x0A, 0x20]"
  let ?db = "[sample_doc, sample_doc\<lparr>doc_id := 2, note := js ''bye'', summary := js ''b'', tags := []\<rparr>]"
  let ?db' = "[sample_doc, sample_doc\<lparr>doc_id := 2, note := js ''Un CAF'' @ [0xC9], summary := js ''b'', tags := []\<rparr>]"
  let ?Y = "js ''caf'' @ [0xE9]"
  have t: "trim ?X = js ''HELLO''" by (simp add: trim_def isWhiteSpace_def js_def cp_def)
  have t': "trim ?Y = ?Y" by (simp add: trim_def isWhiteSpace_def js_def cp_def)
  have l: "literal (js ''HELLO'')" by (simp add: literal_def syntax_characters_def plain_character_def js_def cp_def)
  have l': "literal ?Y" by (simp add: literal_def syntax_characters_def plain_character_def js_def cp_def)
  have p: "mset (insertion_order k xs) = mset xs" for k xs by (simp add: insertion_order_def)
  have m: "filter (record_matches (fold_case sample_engine) (js ''HELLO'')) ?db = [sample_doc]"
    by (simp add: record_matches_def occurs_def sample_doc_def sample_engine_def canonicalize_def
        sublist_Cons_right js_def cp_def)
  have m': "filter (record_matches (fold_case latin1_engine) ?Y) ?db' = [?db' ! 1]"
    by (simp add: record_matches_def occurs_def sample_doc_def latin1_engine_def canonicalize_def
        sublist_Cons_right js_def cp_def)
  have m'': "filter (record_matches (fold_case sample_engine) ?Y) ?db' = []"
    by (simp add: record_matches_def occurs_def sample_doc_def sample_engine_def canonicalize_def
        sublist_Cons_right js_def cp_def)
  have y: "?Y \<noteq> []" by (simp add: js_def)
  have h: "js ''HELLO'' \<noteq> []" by (simp add: js_def)
  from get_summaries_literal_filter [of insertion_order ?X sample_engine ?db None, OF p]
  have 1: "get_summaries sample_engine insertion_order ?db (Some ?X) None None None = Response 200 (Docs [sample_doc])"
    unfolding t m using l h by auto
  from get_summaries_literal_filter [of insertion_order ?Y latin1_engine ?db' None, OF p]
  have 2: "get_summaries latin1_engine insertion_order ?db' (Some ?Y) None None None = Response 200 (Docs [?db' ! 1])"
    unfolding t' m' using l' y by auto
  from get_summaries_literal_filter [of insertion_order ?Y sample_engine ?db' None, OF p]
  have 3: "get_summaries sample_engine insertion_order ?db' (Some ?Y) None None None = Response 200 (Docs [])"
    unfolding t' m'' using l' y by auto
  from t l 1 2 3 show ?thesis by simp
qed

text \<open>
  The claim as stated fails for a filter string that is no pattern, and for one with outer
  white space: \<^verbatim>\<open>(\<close> ends in a SyntaxError and status 500; for the string of a space and
  \<^verbatim>\<open>t1\<close> the sample record is returned, although that string occurs in none of its fields.
\<close>

theorem get_summaries_filter_counterexample:
  "get_summaries sample_engine insertion_order [sample_doc] (Some (js ''('')) None None None
     = Response 500 (Thrown SyntaxError)
   \<and> get_summaries sample_engine insertion_order [sample_doc] (Some (js '' t1'')) None None None
     = Response 200 (Docs [sample_doc])
   \<and> \<not> record_matches (fold_case sample_engine) (js '' t1'') sample_doc"
proof (intro conjI)
  show "get_summaries sample_engine insertion_order [sample_doc] (Some (js ''('')) None None None
     = Response 500 (Thrown SyntaxError)"
    by (simp add: get_summaries_def query_filter_def trim_def isWhiteSpace_def RegExp_i_def
        modelled_def plain_character_def parse_def parse_step_def js_def cp_def)
  show "get_summaries sample_engine insertion_order [sample_doc] (Some (js '' t1'')) None None None
     = Response 200 (Docs [sample_doc])"
    by (simp add: get_summaries_def query_filter_def trim_def isWhiteSpace_def RegExp_i_def
        modelled_def plain_character_def parse_def parse_step_def empty_frame_def disjunction_def alternative_def
        or_filter_def sample_doc_def sample_engine_def canonicalize_def sort_docs_def js_def cp_def)
  show "\<not> record_matches (fold_case sample_engine) (js '' t1'') sample_doc"
    by (simp add: record_matches_def occurs_def sample_doc_def sample_engine_def canonicalize_def
        sublist_Cons_right js_def cp_def)
qed

subsection \<open>Pagination\<close>












subsection \<open>Sharing\<close>

lemma nanoid_shape:
  assumes "nanoid n rnd = (s, rnd')"
  shows "length s = n \<and> set s \<subseteq> set urlAlphabet"
proof -
  have "length urlAlphabet = 64" by (simp add: urlAlphabet_def js_def)
  then have "urlAlphabet ! (k mod 64) \<in> set urlAlphabet" for k by simp
  with assms show ?thesis by (auto simp: nanoid_def)
qed

lemma castUpdate_slug: "castUpdate D [''slug'' \<mapsto> JStr s] = Inr (\<lambda>d. d\<lparr>slug := Some s\<rparr>)"
  by (simp add: castUpdate_def castObject_def set_operator_def strict_def schema_paths_def set_path_def comp_def)

lemma post_share_found:
  assumes "find (\<lambda>x. doc_id x = i) db = Some d" and "nanoid 10 rnd = (s, rnd')"
  shows "post_share D rnd db (Id i) =
    (if slug_taken db i (Some s) then (Response 500 (Thrown DuplicateKey), db, rnd')
     else (Response 200 (Object [(''slug'', JStr s)]), replace_first i (d\<lparr>slug := Some s\<rparr>) db, rnd'))"
  by (simp add: post_share_def findByIdAndUpdate_def castUpdate_slug assms)

lemma post_share_absent:
  assumes "find (\<lambda>x. doc_id x = i) db = None" and "nanoid 10 rnd = (s, rnd')"
  shows "post_share D rnd db (Id i) = (Response 404 (Message ''Summary not found''), db, rnd')"
  by (simp add: post_share_def findByIdAndUpdate_def castUpdate_slug assms)

lemma slug_taken_replace_first:
  "doc_id d' = i \<Longrightarrow> slug_taken (replace_first i d' db) i x = slug_taken db i x"
  by (induction db) (auto simp: slug_taken_def split: option.splits)

lemma replace_first_twice:
  "doc_id d1 = i \<Longrightarrow> replace_first i d2 (replace_first i d1 db) = replace_first i d2 db"
  by (induction db) auto

lemma find_slug_replace_first:
  "find (\<lambda>x. doc_id x = i) db = Some d \<Longrightarrow> \<not> slug_taken db i (Some s) \<Longrightarrow>
     find (\<lambda>x. slug x = Some s) (replace_first i (d\<lparr>slug := Some s\<rparr>) db) = Some (d\<lparr>slug := Some s\<rparr>)"
  by (induction db) (auto simp: slug_taken_def split: if_splits)

lemma set_replace_first:
  "distinct (map doc_id db) \<Longrightarrow> x \<in> set (replace_first i d' db) \<Longrightarrow>
     x = d' \<or> (x \<in> set db \<and> doc_id x \<noteq> i)"
proof (induction db)
  case Nil
  then show ?case by simp
next
  case (Cons a db)
  show ?case
  proof (cases "doc_id a = i")
    case True
    with Cons.prems(2) have "x = d' \<or> x \<in> set db" by simp
    moreover have "doc_id y \<noteq> i" if "y \<in> set db" for y
      using Cons.prems(1) True that by (auto simp: image_iff)
    ultimately show ?thesis by auto
  next
    case False
    with Cons.prems(2) have "x = a \<or> x \<in> set (replace_first i d' db)" by simp
    then show ?thesis using Cons.IH Cons.prems(1) False by auto
  qed
qed

lemma no_slug_replace_first:
  assumes "distinct (map doc_id db)" and "\<not> slug_taken db i (Some s)" and "slug d' \<noteq> Some s"
  shows "find (\<lambda>x. slug x = Some s) (replace_first i d' db) = None"
proof -
  have "slug x \<noteq> Some s" if "x \<in> set (replace_first i d' db)" for x
  proof -
    from set_replace_first [OF assms(1) that] show ?thesis
    proof
      assume "x = d'" with assms(3) show ?thesis by simp
    next
      assume "x \<in> set db \<and> doc_id x \<noteq> i"
      with assms(2) show ?thesis by (auto simp: slug_taken_def list_ex_iff)
    qed
  qed
  then show ?thesis by (simp add: find_None_iff)
qed


text \<open>
  Claim C6, as amended: share draws a fresh 10-character slug from the URL-safe alphabet.
  On an id that no record has it answers 404; when another record already carries the
  drawn slug, the unique index fails the request with 500. For an existing Summary and two
  successive shares whose slugs \<open>s1\<close>, \<open>s2\<close> no other record carries, both answer 200 with
  their slug; afterwards \<open>s2\<close> resolves to the record's public projection, and \<open>s1\<close>, if it
  differs from \<open>s2\<close>, no longer resolves. Ids are unique in the collection.
\<close>

theorem post_share_twice:
  assumes "distinct (map doc_id db)"
      and "nanoid 10 rnd = (s1, rnd1)" and "nanoid 10 rnd1 = (s2, rnd2)"
  shows "length s1 = 10 \<and> length s2 = 10 \<and> set s1 \<subseteq> set urlAlphabet \<and> set s2 \<subseteq> set urlAlphabet
       \<and> (find (\<lambda>x. doc_id x = i) db = None \<longrightarrow>
            post_share D rnd db (Id i) = (Response 404 (Message ''Summary not found''), db, rnd1))
       \<and> (find (\<lambda>x. doc_id x = i) db = Some d \<and> slug_taken db i (Some s1) \<longrightarrow>
            post_share D rnd db (Id i) = (Response 500 (Thrown DuplicateKey), db, rnd1))
       \<and> (find (\<lambda>x. doc_id x = i) db = Some d \<and> \<not> slug_taken db i (Some s1) \<and> \<not> slug_taken db i (Some s2) \<longrightarrow>
            post_share D rnd db (Id i) =
              (Response 200 (Object [(''slug'', JStr s1)]), replace_first i (d\<lparr>slug := Some s1\<rparr>) db, rnd1)
          \<and> post_share D rnd1 (replace_first i (d\<lparr>slug := Some s1\<rparr>) db) (Id i) =
              (Response 200 (Object [(''slug'', JStr s2)]), replace_first i (d\<lparr>slug := Some s2\<rparr>) db, rnd2)
          \<and> get_s (replace_first i (d\<lparr>slug := Some s2\<rparr>) db) s2 =
              Response 200 (Object [(''note'', JStr (note d)), (''summary'', JStr (summary d)),
                                    (''tags'', JArr (map tag_json (tags d))),
                                    (''createdAt'', date_json (createdAt d))])
          \<and> (s1 \<noteq> s2 \<longrightarrow>
                get_s (replace_first i (d\<lparr>slug := Some s2\<rparr>) db) s1 = Response 404 (Message ''Not found'')))"
proof (intro conjI impI)
  show "length s1 = 10" "set s1 \<subseteq> set urlAlphabet"
    using nanoid_shape [OF assms(2)] by simp_all
  show "length s2 = 10" "set s2 \<subseteq> set urlAlphabet"
    using nanoid_shape [OF assms(3)] by simp_all
next
  assume "find (\<lambda>x. doc_id x = i) db = None"
  then show "post_share D rnd db (Id i) = (Response 404 (Message ''Summary not found''), db, rnd1)"
    using assms(2) by (rule post_share_absent)
next
  assume "find (\<lambda>x. doc_id x = i) db = Some d \<and> slug_taken db i (Some s1)"
  then show "post_share D rnd db (Id i) = (Response 500 (Thrown DuplicateKey), db, rnd1)"
    using post_share_found [OF _ assms(2), of i db d D] by simp
next
  assume a: "find (\<lambda>x. doc_id x = i) db = Some d \<and> \<not> slug_taken db i (Some s1) \<and> \<not> slug_taken db i (Some s2)"
  let ?d1 = "d\<lparr>slug := Some s1\<rparr>" and ?d2 = "d\<lparr>slug := Some s2\<rparr>"
  from a have fd: "find (\<lambda>x. doc_id x = i) db = Some d"
    and f1: "\<not> slug_taken db i (Some s1)" and f2: "\<not> slug_taken db i (Some s2)" by simp_all
  have i1: "doc_id ?d1 = i" using find_doc_id [OF fd] by simp
  show first: "post_share D rnd db (Id i) =
      (Response 200 (Object [(''slug'', JStr s1)]), replace_first i ?d1 db, rnd1)"
    using post_share_found [OF fd assms(2), of D] f1 by simp
  have fd1: "find (\<lambda>x. doc_id x = i) (replace_first i ?d1 db) = Some ?d1"
    using fd i1 by (rule find_replace_first)
  have t2: "\<not> slug_taken (replace_first i ?d1 db) i (Some s2)"
    using f2 by (simp add: slug_taken_replace_first [OF i1])
  have r2: "replace_first i (?d1\<lparr>slug := Some s2\<rparr>) (replace_first i ?d1 db) = replace_first i ?d2 db"
    using replace_first_twice [OF i1, of "?d2" db] by simp
  show "post_share D rnd1 (replace_first i ?d1 db) (Id i) =
      (Response 200 (Object [(''slug'', JStr s2)]), replace_first i ?d2 db, rnd2)"
    using post_share_found [OF fd1 assms(3), of D] t2 r2 by simp
  have "find (\<lambda>x. slug x = Some s2) (replace_first i ?d2 db) = Some ?d2"
    using fd f2 by (rule find_slug_replace_first)
  then show "get_s (replace_first i ?d2 db) s2 =
      Response 200 (Object [(''note'', JStr (note d)), (''summary'', JStr (summary d)),
                            (''tags'', JArr (map tag_json (tags d))),
                            (''createdAt'', date_json (createdAt d))])"
    by (simp add: get_s_def)
  show "get_s (replace_first i ?d2 db) s1 = Response 404 (Message ''Not found'')" if "s1 \<noteq> s2"
  proof -
    have "slug ?d2 \<noteq> Some s1" using that by simp
    with assms(1) f1 have "find (\<lambda>x. slug x = Some s1) (replace_first i ?d2 db) = None"
      by (rule no_slug_replace_first)
    then show ?thesis by (simp add: get_s_def)
  qed
qed

theorem post_share_twice_witness:
  "distinct (map doc_id [sample_doc])
   \<and> fst (post_share sample_date_cast counting_pool [sample_doc] (Id 1))
       = Response 200 (Object [(''slug'', JStr (js ''useandom-2''))])
   \<and> fst (post_share sample_date_cast (\<lambda>i. counting_pool (i + 10)) [sample_doc\<lparr>slug := Some (js ''useandom-2'')\<rparr>] (Id 1))
       = Response 200 (Object [(''slug'', JStr (js ''6T198340PX''))])
   \<and> get_s [sample_doc\<lparr>slug := Some (js ''6T198340PX'')\<rparr>] (js ''6T198340PX'')
       = Response 200 (Object [(''note'', JStr (js ''hello world'')), (''summary'', JStr (js ''hello'')),
                               (''tags'', JArr [JStr (js ''t1'')]), (''createdAt'', JDate 1000)])
   \<and> get_s [sample_doc\<lparr>slug := Some (js ''6T198340PX'')\<rparr>] (js ''useandom-2'') = Response 404 (Message ''Not found'')
   \<and> fst (post_share sample_date_cast counting_pool [sample_doc] (Id 2))
       = Response 404 (Message ''Summary not found'')"
proof -
  have d: "distinct (map doc_id [sample_doc])" by simp
  have n1: "nanoid 10 counting_pool = ((js ''useandom-2''), \<lambda>i. counting_pool (i + 10))"
    by (simp add: nanoid_def urlAlphabet_def counting_pool_def upt_rec js_def)
  have n2: "nanoid 10 (\<lambda>i. counting_pool (i + 10)) = ((js ''6T198340PX''), \<lambda>i. counting_pool (i + 10 + 10))"
    by (simp add: nanoid_def urlAlphabet_def counting_pool_def upt_rec js_def)
  note t1 = post_share_twice [OF d n1 n2, where i = 1 and d = sample_doc and D = sample_date_cast]
  note t2 = post_share_twice [OF d n1 n2, where i = 2 and d = sample_doc and D = sample_date_cast]
  have f: "find (\<lambda>x. doc_id x = 1) [sample_doc] = Some sample_doc" by (simp add: sample_doc_def)
  have g: "find (\<lambda>x. doc_id x = 2) [sample_doc] = None" by (simp add: sample_doc_def)
  have s: "\<not> slug_taken [sample_doc] 1 x" for x
    by (simp add: slug_taken_def sample_doc_def split: option.splits)
  have ne: "js ''useandom-2'' \<noteq> js ''6T198340PX''" by (simp add: js_def cp_def)
  from t1 f s ne have
    "post_share sample_date_cast counting_pool [sample_doc] (Id 1) =
       (Response 200 (Object [(''slug'', JStr (js ''useandom-2''))]),
        replace_first 1 (sample_doc\<lparr>slug := Some (js ''useandom-2'')\<rparr>) [sample_doc], \<lambda>i. counting_pool (i + 10))
     \<and> post_share sample_date_cast (\<lambda>i. counting_pool (i + 10))
          (replace_first 1 (sample_doc\<lparr>slug := Some (js ''useandom-2'')\<rparr>) [sample_doc]) (Id 1) =
       (Response 200 (Object [(''slug'', JStr (js ''6T198340PX''))]),
        replace_first 1 (sample_doc\<lparr>slug := Some (js ''6T198340PX'')\<rparr>) [sample_doc], \<lambda>i. counting_pool (i + 10 + 10))
     \<and> get_s (replace_first 1 (sample_doc\<lparr>slug := Some (js ''6T198340PX'')\<rparr>) [sample_doc]) (js ''6T198340PX'') =
       Response 200 (Object [(''note'', JStr (note sample_doc)), (''summary'', JStr (summary sample_doc)),
                             (''tags'', JArr (map tag_json (tags sample_doc))),
                             (''createdAt'', date_json (createdAt sample_doc))])
     \<and> get_s (replace_first 1 (sample_doc\<lparr>slug := Some (js ''6T198340PX'')\<rparr>) [sample_doc]) (js ''useandom-2'') =
       Response 404 (Message ''Not found'')"
    by simp
  moreover have "replace_first 1 x [sample_doc] = [x]" for x by (simp add: sample_doc_def)
  moreover from t2 g have "post_share sample_date_cast counting_pool [sample_doc] (Id 2) =
       (Response 404 (Message ''Summary not found''), [sample_doc], \<lambda>i. counting_pool (i + 10))"
    by simp
  ultimately show ?thesis
    by (simp add: sample_doc_def tag_json_def date_json_def)
qed

text \<open>
  The two slugs need not differ: they are whatever the random pool gives. On a pool of zero
  bytes both shares answer with the same slug.
\<close>

theorem post_share_twice_counterexample:
  "post_share sample_date_cast zero_pool [sample_doc] (Id 1)
     = (Response 200 (Object [(''slug'', JStr (js ''uuuuuuuuuu''))]), [sample_doc\<lparr>slug := Some (js ''uuuuuuuuuu'')\<rparr>], zero_pool)
   \<and> post_share sample_date_cast zero_pool [sample_doc\<lparr>slug := Some (js ''uuuuuuuuuu'')\<rparr>] (Id 1)
     = (Response 200 (Object [(''slug'', JStr (js ''uuuuuuuuuu''))]), [sample_doc\<lparr>slug := Some (js ''uuuuuuuuuu'')\<rparr>], zero_pool)"
proof -
  have z: "(\<lambda>i. zero_pool (i + 10)) = zero_pool" by (simp add: zero_pool_def fun_eq_iff)
  have n: "nanoid 10 zero_pool = ((js ''uuuuuuuuuu''), zero_pool)"
    unfolding nanoid_def z by (simp add: urlAlphabet_def zero_pool_def upt_rec js_def)
  show ?thesis
    by (simp add: post_share_def n findByIdAndUpdate_def castUpdate_def castObject_def set_operator_def
        strict_def schema_paths_def
        set_path_def slug_taken_def sample_doc_def)
qed

subsection \<open>Registration and token verification\<close>

lemma verifyJWT_Bearer_JWT:
  "verifyJWT mac secret t (Some (Bearer (JWT c sig))) =
    (if sig \<noteq> mac secret c \<or> exp c \<le> t div 1000 then Inl (Response 401 (Message ''Invalid token''))
     else Inr \<lparr>user_id = claim_id c, email = claim_email c\<rparr>)"
  by (simp add: verifyJWT_def)

text \<open>A password of five letters is too short, also with a variation selector behind
  them.\<close>

lemma register_short_password:
  "register sample_isEmail sample_hash sample_mac (js ''k'') (js ''u1'') 5000 []
        [''email'' \<mapsto> JStr (js ''a@b.com''), ''password'' \<mapsto> JStr (js ''secre'' @ [0xFE0F])]
     = (Response 400 (Errors [''password'']), [])"
  "register sample_isEmail sample_hash sample_mac (js ''k'') (js ''u1'') 5000 []
        [''email'' \<mapsto> JStr (js ''a@b.com''), ''password'' \<mapsto> JStr (js ''secre'')]
     = (Response 400 (Errors [''password'']), [])"
  by (simp_all add: register_def failing_def toString_def validator_length_def sample_isEmail_def
      js_def cp_def)

text \<open>
  Claim C7: for a registration with a well-formed email \<open>e\<close> that is not yet registered and
  a password of at least 6 characters, as the validator counts them, register answers 201
  with a token whose claims are the new user's id and \<open>e\<close>, issued at the current second
  and expiring 900 seconds later.
  Verifying that token before its expiry yields the id and \<open>e\<close>; from the expiry on it fails
  with 401, as does any token whose signature is not the keyed hash of its claims.
\<close>

theorem register_token_verifies:
  assumes "b ''email'' = Some (JStr e)" and "isEmail e"
      and "b ''password'' = Some (JStr p)" and "6 \<le> validator_length p"
      and "User_findOne users e = None"
      and "u = \<lparr>user_oid = oid, user_email = e, passwordHash = H p\<rparr>"
      and "c = \<lparr>claim_id = oid, claim_email = e, iat = now div 1000, exp = now div 1000 + 900\<rparr>"
  shows "register isEmail H mac secret oid now users b =
           (Response 201 (Auth (JWT c (mac secret c)) \<lparr>user_id = oid, email = e\<rparr>), users @ [u])
       \<and> (\<forall>t. t div 1000 < now div 1000 + 900 \<longrightarrow>
             verifyJWT mac secret t (Some (Bearer (JWT c (mac secret c)))) = Inr \<lparr>user_id = oid, email = e\<rparr>)
       \<and> (\<forall>t. now div 1000 + 900 \<le> t div 1000 \<longrightarrow>
             verifyJWT mac secret t (Some (Bearer (JWT c (mac secret c))))
               = Inl (Response 401 (Message ''Invalid token'')))
       \<and> (\<forall>t c' sig'. sig' \<noteq> mac secret c' \<longrightarrow>
             verifyJWT mac secret t (Some (Bearer (JWT c' sig')))
               = Inl (Response 401 (Message ''Invalid token'')))"
proof (intro conjI allI impI)
  have v: "failing [(''email'', standard isEmail (b ''email'')),
                    (''password'', standard (\<lambda>s. 6 \<le> validator_length s) (b ''password''))] = []"
    using assms(1-4) by (simp add: failing_def toString_def)
  have s: "sign mac secret now u = JWT c (mac secret c)"
    by (simp add: sign_def jwt_sign_def Let_def assms(6,7))
  show "register isEmail H mac secret oid now users b =
           (Response 201 (Auth (JWT c (mac secret c)) \<lparr>user_id = oid, email = e\<rparr>), users @ [u])"
    unfolding register_def v
    using assms(1,3,5) s by (simp add: cast_field_def User_create_def Let_def assms(6))
next
  fix t assume "t div 1000 < now div 1000 + 900"
  then show "verifyJWT mac secret t (Some (Bearer (JWT c (mac secret c)))) = Inr \<lparr>user_id = oid, email = e\<rparr>"
    by (simp add: verifyJWT_Bearer_JWT assms(7))
next
  fix t assume "now div 1000 + 900 \<le> t div 1000"
  then show "verifyJWT mac secret t (Some (Bearer (JWT c (mac secret c))))
               = Inl (Response 401 (Message ''Invalid token''))"
    by (simp add: verifyJWT_Bearer_JWT assms(7))
next
  fix t c' sig' assume "sig' \<noteq> mac secret c'"
  then show "verifyJWT mac secret t (Some (Bearer (JWT c' sig')))
               = Inl (Response 401 (Message ''Invalid token''))"
    by (simp add: verifyJWT_Bearer_JWT)
qed

theorem register_token_verifies_witness:
  "sample_isEmail (js ''a@b.com'') \<and> 6 \<le> validator_length (js ''secret1'') \<and> User_findOne [] (js ''a@b.com'') = None
   \<and> register sample_isEmail sample_hash sample_mac (js ''k'') (js ''u1'') 5000 []
        [''email'' \<mapsto> JStr (js ''a@b.com''), ''password'' \<mapsto> JStr (js ''secret1'')]
       = (Response 201
            (Auth (JWT \<lparr>claim_id = (js ''u1''), claim_email = (js ''a@b.com''), iat = 5, exp = 905\<rparr> (js ''ku1a@b.com''))
                  \<lparr>user_id = (js ''u1''), email = (js ''a@b.com'')\<rparr>),
          [\<lparr>user_oid = (js ''u1''), user_email = (js ''a@b.com''), passwordHash = (js ''1terces'')\<rparr>])
   \<and> verifyJWT sample_mac (js ''k'') 904999
        (Some (Bearer (JWT \<lparr>claim_id = (js ''u1''), claim_email = (js ''a@b.com''), iat = 5, exp = 905\<rparr> (js ''ku1a@b.com''))))
       = Inr \<lparr>user_id = (js ''u1''), email = (js ''a@b.com'')\<rparr>
   \<and> verifyJWT sample_mac (js ''k'') 905000
        (Some (Bearer (JWT \<lparr>claim_id = (js ''u1''), claim_email = (js ''a@b.com''), iat = 5, exp = 905\<rparr> (js ''ku1a@b.com''))))
       = Inl (Response 401 (Message ''Invalid token''))
   \<and> verifyJWT sample_mac (js ''k'') 6000
        (Some (Bearer (JWT \<lparr>claim_id = (js ''u2''), claim_email = (js ''a@b.com''), iat = 5, exp = 905\<rparr> (js ''ku1a@b.com''))))
       = Inl (Response 401 (Message ''Invalid token''))"
proof -
  have e: "sample_isEmail (js ''a@b.com'')" by (simp add: sample_isEmail_def js_def cp_def)
  have p: "6 \<le> validator_length (js ''secret1'')" by (simp add: validator_length_def js_def cp_def)
  have f: "User_findOne [] (js ''a@b.com'') = None" by (simp add: User_findOne_def)
  have b1: "[''email'' \<mapsto> JStr (js ''a@b.com''), ''password'' \<mapsto> JStr (js ''secret1'')] ''email'' = Some (JStr (js ''a@b.com''))"
    by simp
  have b2: "[''email'' \<mapsto> JStr (js ''a@b.com''), ''password'' \<mapsto> JStr (js ''secret1'')] ''password'' = Some (JStr (js ''secret1''))"
    by simp
  note t = register_token_verifies [where isEmail = sample_isEmail and H = sample_hash
      and mac = sample_mac and secret = "(js ''k'')" and oid = "(js ''u1'')" and now = 5000 and users = "[]"
      and e = "(js ''a@b.com'')" and p = "(js ''secret1'')"
      and b = "[''email'' \<mapsto> JStr (js ''a@b.com''), ''password'' \<mapsto> JStr (js ''secret1'')]",
      OF b1 e b2 p f refl refl]
  from t have r: "register sample_isEmail sample_hash sample_mac (js ''k'') (js ''u1'') 5000 []
        [''email'' \<mapsto> JStr (js ''a@b.com''), ''password'' \<mapsto> JStr (js ''secret1'')]
       = (Response 201
            (Auth (JWT \<lparr>claim_id = (js ''u1''), claim_email = (js ''a@b.com''), iat = 5, exp = 905\<rparr> (js ''ku1a@b.com''))
                  \<lparr>user_id = (js ''u1''), email = (js ''a@b.com'')\<rparr>),
          [\<lparr>user_oid = (js ''u1''), user_email = (js ''a@b.com''), passwordHash = (js ''1terces'')\<rparr>])"
    by (simp add: sample_mac_def sample_hash_def js_def)
  from t have "\<forall>t. t div 1000 < 905 \<longrightarrow> verifyJWT sample_mac (js ''k'') t
        (Some (Bearer (JWT \<lparr>claim_id = (js ''u1''), claim_email = (js ''a@b.com''), iat = 5, exp = 905\<rparr> (js ''ku1a@b.com''))))
       = Inr \<lparr>user_id = (js ''u1''), email = (js ''a@b.com'')\<rparr>"
    by (simp add: sample_mac_def js_def cp_def)
  then have v1: "verifyJWT sample_mac (js ''k'') 904999
        (Some (Bearer (JWT \<lparr>claim_id = (js ''u1''), claim_email = (js ''a@b.com''), iat = 5, exp = 905\<rparr> (js ''ku1a@b.com''))))
       = Inr \<lparr>user_id = (js ''u1''), email = (js ''a@b.com'')\<rparr>"
    by simp
  from t have "\<forall>t. 905 \<le> t div 1000 \<longrightarrow> verifyJWT sample_mac (js ''k'') t
        (Some (Bearer (JWT \<lparr>claim_id = (js ''u1''), claim_email = (js ''a@b.com''), iat = 5, exp = 905\<rparr> (js ''ku1a@b.com''))))
       = Inl (Response 401 (Message ''Invalid token''))"
    by (simp add: sample_mac_def js_def cp_def)
  then have v2: "verifyJWT sample_mac (js ''k'') 905000
        (Some (Bearer (JWT \<lparr>claim_id = (js ''u1''), claim_email = (js ''a@b.com''), iat = 5, exp = 905\<rparr> (js ''ku1a@b.com''))))
       = Inl (Response 401 (Message ''Invalid token''))"
    by simp
  from t have "\<forall>t c' sig'. sig' \<noteq> sample_mac (js ''k'') c' \<longrightarrow>
             verifyJWT sample_mac (js ''k'') t (Some (Bearer (JWT c' sig')))
               = Inl (Response 401 (Message ''Invalid token''))"
    by blast
  then have v3: "verifyJWT sample_mac (js ''k'') 6000
        (Some (Bearer (JWT \<lparr>claim_id = (js ''u2''), claim_email = (js ''a@b.com''), iat = 5, exp = 905\<rparr> (js ''ku1a@b.com''))))
       = Inl (Response 401 (Message ''Invalid token''))"
    by (simp add: sample_mac_def js_def cp_def)
  from e p f r v1 v2 v3 show ?thesis by blast
qed

end
